theory Spec2Isabelle
  imports Complex_Main
begin

section \<open>Python values used by \<open>ccusage/api.py\<close>\<close>

text \<open>
  A Python \<open>str\<close> is a list of code points; the model covers the code points below 256
  (\<^typ>\<open>char\<close>), so \<open>take n\<close> is the slice \<open>[:n]\<close>. A Python \<open>float\<close> is idealised
  as an exact \<^typ>\<open>real\<close>: NaN, the infinities, overflow and rounding error of binary
  floating point are outside the model. A Python \<open>int\<close> is \<^typ>\<open>int\<close>.
\<close>

subsection \<open>Strings\<close>

text \<open>\<open>str.isspace\<close> on one code point below 256; \<open>\s\<close> of \<open>re\<close> uses the same table.\<close>

definition whitespace :: "char list" where
  "whitespace = [CHR 0x09, CHR 0x0A, CHR 0x0B, CHR 0x0C, CHR 0x0D,
                 CHR 0x1C, CHR 0x1D, CHR 0x1E, CHR 0x1F, CHR 0x20, CHR 0x85, CHR 0xA0]"

definition isspace :: "char \<Rightarrow> bool" where
  "isspace c = (c \<in> set whitespace)"

text \<open>\<open>s.strip()\<close>: leading and trailing whitespace removed.\<close>

definition strip :: "string \<Rightarrow> string" where
  "strip s = rev (dropWhile isspace (rev (dropWhile isspace s)))"

text \<open>Case folding as \<open>re.IGNORECASE\<close> applies it to the ASCII letters of the patterns.\<close>

definition lower :: "char \<Rightarrow> char" where
  "lower c = (case map_of (zip ''ABCDEFGHIJKLMNOPQRSTUVWXYZ'' ''abcdefghijklmnopqrstuvwxyz'') c of
                Some l \<Rightarrow> l | None \<Rightarrow> c)"

text \<open>\<open>zdt.replace("Z", "+00:00")\<close>: every occurrence is replaced.\<close>

definition replace_Z :: "string \<Rightarrow> string" where
  "replace_Z s = concat (map (\<lambda>c. if c = CHR ''Z'' then ''+00:00'' else [c]) s)"

subsection \<open>Regular expressions (\<open>re.compile(..., re.IGNORECASE)\<close> and \<open>.search\<close>)\<close>

datatype atom =
    Lit char            \<comment> \<open>a literal character\<close>
  | Space               \<comment> \<open>\<open>\s\<close>\<close>
  | OneOf string        \<comment> \<open>\<open>[...]\<close>\<close>
  | NoneOf string       \<comment> \<open>\<open>[^...]\<close>\<close>

fun atom_match :: "atom \<Rightarrow> char \<Rightarrow> bool" where
  "atom_match (Lit p) c = (lower c = lower p)"
| "atom_match Space c = isspace c"
| "atom_match (OneOf ps) c = (lower c \<in> set (map lower ps))"
| "atom_match (NoneOf ps) c = (lower c \<notin> set (map lower ps))"

datatype regex =
    Never | Eps | Atom atom
  | Cat regex regex     \<comment> \<open>\<open>rs\<close>\<close>
  | Or regex regex      \<comment> \<open>\<open>r|s\<close>\<close>
  | Many regex          \<comment> \<open>\<open>r*\<close>\<close>

fun nullable :: "regex \<Rightarrow> bool" where
  "nullable Never = False"
| "nullable Eps = True"
| "nullable (Atom a) = False"
| "nullable (Cat r s) = (nullable r \<and> nullable s)"
| "nullable (Or r s) = (nullable r \<or> nullable s)"
| "nullable (Many r) = True"

text \<open>The residual pattern after reading one character.\<close>

fun deriv :: "char \<Rightarrow> regex \<Rightarrow> regex" where
  "deriv c Never = Never"
| "deriv c Eps = Never"
| "deriv c (Atom a) = (if atom_match a c then Eps else Never)"
| "deriv c (Cat r s) =
     (if nullable r then Or (Cat (deriv c r) s) (deriv c s) else Cat (deriv c r) s)"
| "deriv c (Or r s) = Or (deriv c r) (deriv c s)"
| "deriv c (Many r) = Cat (deriv c r) (Many r)"

text \<open>\<open>accepts r w\<close>: the whole of \<open>w\<close> matches \<open>r\<close>.\<close>

fun accepts :: "regex \<Rightarrow> string \<Rightarrow> bool" where
  "accepts r [] = nullable r"
| "accepts r (c # cs) = accepts (deriv c r) cs"

text \<open>\<open>match_here r s\<close>: some prefix of \<open>s\<close> matches \<open>r\<close> (\<open>pattern.match\<close>).\<close>

fun match_here :: "regex \<Rightarrow> string \<Rightarrow> bool" where
  "match_here r [] = nullable r"
| "match_here r (c # cs) = (nullable r \<or> match_here (deriv c r) cs)"

text \<open>\<open>search r s\<close>: \<open>pattern.search(s)\<close> is not \<open>None\<close>, a match starts somewhere in \<open>s\<close>.\<close>

fun search :: "regex \<Rightarrow> string \<Rightarrow> bool" where
  "search r [] = nullable r"
| "search r (c # cs) = (match_here r (c # cs) \<or> search r cs)"

text \<open>
  The words of a pattern, to say what the matcher decides: \<open>search r s\<close> holds exactly
  when some word of \<open>r\<close> occurs in \<open>s\<close> (\<open>search_words\<close> below).
\<close>

inductive_set repeats :: "string set \<Rightarrow> string set" for A :: "string set" where
  none: "[] \<in> repeats A"
| more: "u \<in> A \<Longrightarrow> v \<in> repeats A \<Longrightarrow> u @ v \<in> repeats A"

fun words :: "regex \<Rightarrow> string set" where
  "words Never = {}"
| "words Eps = {[]}"
| "words (Atom a) = {[c] | c. atom_match a c}"
| "words (Cat r s) = {u @ v | u v. u \<in> words r \<and> v \<in> words s}"
| "words (Or r s) = words r \<union> words s"
| "words (Many r) = repeats (words r)"

definition lits :: "string \<Rightarrow> regex" where
  "lits s = foldr (\<lambda>c r. Cat (Atom (Lit c)) r) s Eps"

definition Optional :: "regex \<Rightarrow> regex" where
  "Optional r = Or r Eps"

definition OneOrMore :: "regex \<Rightarrow> regex" where
  "OneOrMore r = Cat r (Many r)"

definition seqs :: "regex list \<Rightarrow> regex" where
  "seqs rs = foldr Cat rs Eps"

text \<open>
  \<^verbatim>\<open>_LIMIT_HIT = re.compile(
      r'(?:5\s*[- ]?\s*hour\s+limit\s+(?:reached|readched)|rate\s*limit)', re.IGNORECASE)\<close>
\<close>

definition LIMIT_HIT :: regex where
  "LIMIT_HIT = Or
     (seqs [lits ''5'', Many (Atom Space), Optional (Atom (OneOf ''- '')), Many (Atom Space),
            lits ''hour'', OneOrMore (Atom Space), lits ''limit'', OneOrMore (Atom Space),
            Or (lits ''reached'') (lits ''readched'')])
     (seqs [lits ''rate'', Many (Atom Space), lits ''limit''])"

text \<open>
  \<^verbatim>\<open>_RESET_HINT = re.compile(
      r'(?:reset[s]?\s*(?:at|on|in)?\s*[:\-]?\s*)(?P<when>[^\n\r]+)', re.IGNORECASE)\<close>
\<close>

definition RESET_HINT :: regex where
  "RESET_HINT = seqs
     [lits ''reset'', Optional (Atom (OneOf ''s'')), Many (Atom Space),
      Optional (Or (lits ''at'') (Or (lits ''on'') (lits ''in''))), Many (Atom Space),
      Optional (Atom (OneOf '':-'')), Many (Atom Space),
      OneOrMore (Atom (NoneOf [CHR 0x0A, CHR 0x0D]))]"

subsection \<open>Exceptions\<close>

text \<open>
  An exception is its class and its \<open>str(e)\<close>. A function that can raise returns
  \<open>exn + 'a\<close>, \<open>Inl\<close> being the raise.
\<close>

datatype exc_class =
    ValueError | JSONDecodeError | RuntimeError | KeyError | IndexError | TypeError
  | AttributeError | OverflowError | TimeoutExpired | OSError

datatype exn = Exn (cls: exc_class) (exn_str: string)

text \<open>\<open>json.JSONDecodeError\<close> is a subclass of \<open>ValueError\<close>.\<close>

fun is_ValueError :: "exc_class \<Rightarrow> bool" where
  "is_ValueError ValueError = True"
| "is_ValueError JSONDecodeError = True"
| "is_ValueError _ = False"

fun is_RuntimeError :: "exc_class \<Rightarrow> bool" where
  "is_RuntimeError RuntimeError = True"
| "is_RuntimeError _ = False"

definition and_then :: "exn + 'a \<Rightarrow> ('a \<Rightarrow> exn + 'b) \<Rightarrow> exn + 'b" where
  "and_then m f = (case m of Inl e \<Rightarrow> Inl e | Inr x \<Rightarrow> f x)"

subsection \<open>JSON values and the operations the code applies to them\<close>

datatype json =
    JNull | JBool bool | JInt int | JFloat real | JStr string
  | JArr "json list" | JObj "(string \<times> json) list"

text \<open>\<open>x[key]\<close> with a \<open>str\<close> key; \<open>str(KeyError(k))\<close> is \<open>k\<close> in quotes.\<close>

fun getitem_str :: "json \<Rightarrow> string \<Rightarrow> exn + json" where
  "getitem_str (JObj kvs) k =
     (case map_of kvs k of
        Some v \<Rightarrow> Inr v
      | None \<Rightarrow> Inl (Exn KeyError (CHR 0x27 # k @ [CHR 0x27])))"
| "getitem_str _ k = Inl (Exn TypeError ''indices must be integers'')"

text \<open>\<open>x[0]\<close>.\<close>

fun getitem_0 :: "json \<Rightarrow> exn + json" where
  "getitem_0 (JArr []) = Inl (Exn IndexError ''list index out of range'')"
| "getitem_0 (JArr (x # xs)) = Inr x"
| "getitem_0 (JStr []) = Inl (Exn IndexError ''string index out of range'')"
| "getitem_0 (JStr (c # cs)) = Inr (JStr [c])"
| "getitem_0 (JObj kvs) = Inl (Exn KeyError ''0'')"
| "getitem_0 _ = Inl (Exn TypeError ''object is not subscriptable'')"

text \<open>\<open>x.get(key, default)\<close>: only a \<open>dict\<close> has the method.\<close>

fun py_get :: "json \<Rightarrow> string \<Rightarrow> json \<Rightarrow> exn + json" where
  "py_get (JObj kvs) k d = Inr (case map_of kvs k of Some v \<Rightarrow> v | None \<Rightarrow> d)"
| "py_get _ k d = Inl (Exn AttributeError ''object has no attribute get'')"

text \<open>\<open>bool(x)\<close>.\<close>

fun py_bool :: "json \<Rightarrow> bool" where
  "py_bool JNull = False"
| "py_bool (JBool b) = b"
| "py_bool (JInt n) = (n \<noteq> 0)"
| "py_bool (JFloat x) = (x \<noteq> 0)"
| "py_bool (JStr s) = (s \<noteq> [])"
| "py_bool (JArr xs) = (xs \<noteq> [])"
| "py_bool (JObj kvs) = (kvs \<noteq> [])"

text \<open>\<open>int(x)\<close> of a float truncates towards zero.\<close>

definition trunc :: "real \<Rightarrow> int" where
  "trunc x = (if 0 \<le> x then \<lfloor>x\<rfloor> else \<lceil>x\<rceil>)"

text \<open>\<open>round(x, n)\<close>: to \<open>n\<close> decimals, a tie going to the even neighbour.\<close>

definition round_half_even :: "real \<Rightarrow> int" where
  "round_half_even y =
     (let f = \<lfloor>y\<rfloor>; d = y - of_int f
      in if d < 1 / 2 then f else if 1 / 2 < d then f + 1 else if even f then f else f + 1)"

definition py_round :: "real \<Rightarrow> nat \<Rightarrow> real" where
  "py_round x n = of_int (round_half_even (x * 10 ^ n)) / 10 ^ n"

subsection \<open>\<open>datetime\<close> and \<open>timedelta\<close>\<close>

text \<open>
  A \<open>datetime\<close> is its wall-clock reading in microseconds since 0001-01-01T00:00:00 and,
  when it is aware, its UTC offset in microseconds. A \<open>timedelta\<close> is a number of
  microseconds.
\<close>

record datetime =
  wall :: int
  utcoffset :: "int option"

type_synonym timedelta = int

text \<open>One past \<open>datetime.max\<close> (9999-12-31T23:59:59.999999).\<close>

definition MAX_WALL :: int where
  "MAX_WALL = 3652059 * 86400000000"

text \<open>\<open>a - b\<close> on two datetimes.\<close>

definition dt_sub :: "datetime \<Rightarrow> datetime \<Rightarrow> exn + timedelta" where
  "dt_sub a b =
     (case (utcoffset a, utcoffset b) of
        (Some oa, Some ob) \<Rightarrow> Inr ((wall a - oa) - (wall b - ob))
      | (None, None) \<Rightarrow> Inr (wall a - wall b)
      | _ \<Rightarrow> Inl (Exn TypeError ''cannot subtract offset-naive and offset-aware datetimes''))"

text \<open>\<open>td.total_seconds()\<close>.\<close>

definition total_seconds :: "timedelta \<Rightarrow> real" where
  "total_seconds td = of_int td / 1000000"

text \<open>\<open>dt.timedelta(minutes=m)\<close>: rounded to the microsecond, at most 999999999 days.\<close>

definition timedelta_minutes :: "real \<Rightarrow> exn + timedelta" where
  "timedelta_minutes m =
     (let us = round_half_even (m * 60000000); days = us div 86400000000
      in if - 999999999 \<le> days \<and> days \<le> 999999999 then Inr us
         else Inl (Exn OverflowError ''days; must have magnitude <= 999999999''))"

text \<open>\<open>a + td\<close>.\<close>

definition dt_add :: "datetime \<Rightarrow> timedelta \<Rightarrow> exn + datetime" where
  "dt_add a td =
     (let w = wall a + td
      in if 0 \<le> w \<and> w < MAX_WALL then Inr (a\<lparr>wall := w\<rparr>)
         else Inl (Exn OverflowError ''date value out of range''))"

section \<open>The module \<open>ccusage/api.py\<close>\<close>

subsection \<open>What the module reads from outside\<close>

record completed_process =
  returncode :: int
  stdout :: string
  stderr :: string

record plan_cfg =
  token_limit :: int
  cost_limit :: real
  message_limit :: int
  display_name :: string

text \<open>
  The functions of the module take an environment: the outcome of \<open>subprocess.run\<close> on a
  command (with \<open>capture_output\<close>, \<open>text\<close> and the 30 second timeout; a function of the
  command, each command being run once per request), the text parsers and formatters of the
  standard library (\<open>json.loads\<close>, \<open>float\<close> and \<open>int\<close> of a \<open>str\<close>,
  \<open>datetime.fromisoformat\<close>, \<open>datetime.strftime\<close>), the reading of the clock
  \<open>datetime.now(UTC)\<close>, and the module-level table of plans. The table is a field so that
  the guards against a zero limit are reachable; the table the module ships is
  \<open>PLAN_CONFIG\<close> below.
\<close>

record env =
  subprocess_run :: "string list \<Rightarrow> exn + completed_process"
  json_loads :: "string \<Rightarrow> exn + json"
  float_of_str :: "string \<Rightarrow> exn + real"
  int_of_str :: "string \<Rightarrow> exn + int"
  fromisoformat :: "string \<Rightarrow> exn + datetime"
  strftime :: "datetime \<Rightarrow> string \<Rightarrow> string"
  clock :: int
  plan_config :: "(string \<times> plan_cfg) list"

text \<open>\<open>float(x)\<close> and \<open>int(x)\<close> of a JSON value.\<close>

fun py_float :: "env \<Rightarrow> json \<Rightarrow> exn + real" where
  "py_float E (JInt n) = Inr (of_int n)"
| "py_float E (JFloat x) = Inr x"
| "py_float E (JBool b) = Inr (if b then 1 else 0)"
| "py_float E (JStr s) = float_of_str E s"
| "py_float E _ = Inl (Exn TypeError ''float() argument must be a string or a real number'')"

fun py_int :: "env \<Rightarrow> json \<Rightarrow> exn + int" where
  "py_int E (JInt n) = Inr n"
| "py_int E (JFloat x) = Inr (trunc x)"
| "py_int E (JBool b) = Inr (if b then 1 else 0)"
| "py_int E (JStr s) = int_of_str E s"
| "py_int E _ = Inl (Exn TypeError ''int() argument must be a string or a real number'')"

text \<open>\<open>dt.datetime.now(dt.UTC)\<close>: aware, at offset zero.\<close>

definition now :: "env \<Rightarrow> datetime" where
  "now E = \<lparr>wall = clock E, utcoffset = Some 0\<rparr>"

subsection \<open>Plans\<close>

datatype PlanType = PRO | MAX5 | MAX20

fun PlanType_value :: "PlanType \<Rightarrow> string" where
  "PlanType_value PRO = ''Pro''"
| "PlanType_value MAX5 = ''Max5''"
| "PlanType_value MAX20 = ''Max20''"

fun PlanType_str :: "PlanType \<Rightarrow> string" where
  "PlanType_str PRO = ''PlanType.PRO''"
| "PlanType_str MAX5 = ''PlanType.MAX5''"
| "PlanType_str MAX20 = ''PlanType.MAX20''"

text \<open>The argument \<open>plan: PlanType | str\<close>.\<close>

datatype plan_arg = OfEnum PlanType | OfStr string

definition PLAN_CONFIG :: "(string \<times> plan_cfg) list" where
  "PLAN_CONFIG =
     [(''Pro'', \<lparr>token_limit = 19000, cost_limit = 18, message_limit = 250,
                display_name = ''Pro''\<rparr>),
      (''Max5'', \<lparr>token_limit = 88000, cost_limit = 35, message_limit = 1000,
                 display_name = ''Max5''\<rparr>),
      (''Max20'', \<lparr>token_limit = 220000, cost_limit = 140, message_limit = 2000,
                  display_name = ''Max20''\<rparr>)]"

text \<open>\<open>_normalize_plan\<close>\<close>

definition normalize_plan :: "env \<Rightarrow> plan_arg \<Rightarrow> exn + plan_cfg" where
  "normalize_plan E plan =
     (let key = (case plan of OfEnum p \<Rightarrow> PlanType_value p | OfStr s \<Rightarrow> s)
      in case map_of (plan_config E) key of
           None \<Rightarrow> Inl (Exn ValueError (''Unknown plan: '' @
                     (case plan of OfEnum p \<Rightarrow> PlanType_str p | OfStr s \<Rightarrow> s)))
         | Some cfg \<Rightarrow> Inr cfg)"

subsection \<open>Helpers\<close>

text \<open>\<open>_run\<close>: the return code and the stripped output, \<open>stderr\<close> after a newline.\<close>

definition run :: "env \<Rightarrow> string list \<Rightarrow> exn + (int \<times> string)" where
  "run E cmd =
     and_then (subprocess_run E cmd) (\<lambda>p.
       let out = stdout p @ (if stderr p \<noteq> [] then CHR 0x0A # stderr p else [])
       in Inr (returncode p, strip out))"

text \<open>\<open>_utc_from_iso8601\<close>: the argument is whatever \<open>block["endTime"]\<close> held.\<close>

fun utc_from_iso8601 :: "env \<Rightarrow> json \<Rightarrow> exn + datetime" where
  "utc_from_iso8601 E (JStr zdt) = fromisoformat E (replace_Z zdt)"
| "utc_from_iso8601 E _ = Inl (Exn AttributeError ''object has no attribute replace'')"

text \<open>\<open>_fmt_utc\<close>\<close>

definition fmt_utc :: "env \<Rightarrow> datetime \<Rightarrow> string" where
  "fmt_utc E ts = strftime E ts ''%Y-%m-%d %H:%M UTC''"

subsection \<open>The limit probe\<close>

record limit_info =
  type :: string
  message :: string

text \<open>\<open>_probe_limit_via_claude\<close>\<close>

definition probe_limit_via_claude :: "env \<Rightarrow> string list \<Rightarrow> limit_info" where
  "probe_limit_via_claude E test_cmd =
     (case run E test_cmd of
        Inl e \<Rightarrow> \<lparr>type = ''error'', message = exn_str e\<rparr>
      | Inr (code, out) \<Rightarrow>
          if search LIMIT_HIT out \<or> search RESET_HINT out
          then \<lparr>type = ''limit'', message = take 500 out\<rparr>
          else if CHR ''2'' \<notin> set (strip out)
          then \<lparr>type = ''error'', message = take 500 out\<rparr>
          else \<lparr>type = ''not_limited'', message = strip out\<rparr>)"

subsection \<open>The status report\<close>

record ('u, 'l) usage =
  used :: 'u
  limit :: 'l
  percent :: real

record reset_info =
  remaining_minutes :: int
  reset_at :: string

record prediction_info =
  tokens_will_run_out :: string
  limit_resets_at :: string

text \<open>The dictionary \<open>get_ccusage_status\<close> returns; its key \<open>"limit"\<close> is \<open>limit_probe\<close>.\<close>

record status_report =
  limit_probe :: limit_info
  plan :: string
  active :: bool
  models :: json
  cost :: "(real, real) usage"
  tokens :: "(real, int) usage"
  messages :: "(int, int) usage"
  time_to_reset :: reset_info
  burn_rate :: real
  cost_rate :: real
  predictions :: prediction_info

definition CCUSAGE_CMD :: "string list" where
  "CCUSAGE_CMD = [''npx'', ''ccusage@latest'', ''blocks'', ''--active'', ''--json'']"

definition DEFAULT_TEST_CMD :: "string list" where
  "DEFAULT_TEST_CMD = [''claude'', ''-p'', ''1+1'']"

text \<open>
  \<open>get_ccusage_status\<close>, statement by statement; a raise at any statement is the result.
\<close>

definition get_ccusage_status :: "env \<Rightarrow> plan_arg \<Rightarrow> string list \<Rightarrow> exn + status_report" where
  "get_ccusage_status E plan_a test_cmd =
     and_then (normalize_plan E plan_a) (\<lambda>cfg.
     let cost_limit = cost_limit cfg;
         token_limit = token_limit cfg;
         msg_limit = message_limit cfg;
         limit_info = probe_limit_via_claude E test_cmd
     in
     and_then (run E CCUSAGE_CMD) (\<lambda>(code, raw).
     if code \<noteq> 0 then Inl (Exn RuntimeError (''ccusage failed: '' @ take 200 raw)) else
     and_then (json_loads E raw) (\<lambda>data.
     and_then (getitem_str data ''blocks'') (\<lambda>blocks.
     and_then (getitem_0 blocks) (\<lambda>block.
     and_then (py_get block ''isActive'' (JBool False)) (\<lambda>v_active.
     let active = py_bool v_active in
     and_then (py_get block ''costUSD'' (JFloat 0)) (\<lambda>v_cost.
     and_then (py_float E v_cost) (\<lambda>cost.
     and_then (py_get block ''totalTokens'' (JInt 0)) (\<lambda>v_tokens.
     and_then (py_int E v_tokens) (\<lambda>tokens_used_raw.
     let tokens_used = of_int tokens_used_raw / 1000 in
     and_then (py_get block ''entries'' (JInt 0)) (\<lambda>v_msgs.
     and_then (py_int E v_msgs) (\<lambda>msgs.
     and_then (py_get block ''models'' (JArr [])) (\<lambda>models.
     let cost_pct = (if cost_limit \<noteq> 0 then cost / cost_limit * 100 else 0);
         token_pct = (if token_limit \<noteq> 0 then tokens_used / of_int token_limit * 100 else 0);
         msg_pct = (if msg_limit \<noteq> 0 then of_int msgs / of_int msg_limit * 100 else 0)
     in
     and_then (getitem_str block ''endTime'') (\<lambda>end_time.
     and_then (utc_from_iso8601 E end_time) (\<lambda>reset_at.
     let now_utc = now E in
     and_then (dt_sub reset_at now_utc) (\<lambda>delta.
     let remaining_minutes = max 0 \<lfloor>total_seconds delta / 60\<rfloor>;
         reset_at_str = fmt_utc E reset_at
     in
     and_then (py_get block ''burnRate'' (JObj [])) (\<lambda>burn.
     and_then (py_get burn ''tokensPerMinuteForIndicator'' (JFloat 0)) (\<lambda>v_rate.
     and_then (py_float E v_rate) (\<lambda>burn_rate.
     and_then (py_get burn ''costPerHour'' JNull) (\<lambda>v_cph.
     and_then (if py_bool v_cph
               then and_then (py_get burn ''costPerHour'' (JFloat 0)) (\<lambda>v.
                    and_then (py_float E v) (\<lambda>x. Inr (x / 60)))
               else Inr 0) (\<lambda>cost_rate.
     let remain_tokens_raw =
           (if token_limit \<noteq> 0 then max 0 (of_int (token_limit * 1000 - tokens_used_raw))
            else 0)
     in
     and_then (if 0 < burn_rate
               then and_then (timedelta_minutes (remain_tokens_raw / burn_rate)) (\<lambda>td.
                    and_then (dt_add now_utc td) (\<lambda>predict_time.
                    Inr (fmt_utc E predict_time)))
               else Inr ''N/A'') (\<lambda>tokens_will_run_out.
     Inr \<lparr>limit_probe = limit_info,
          plan = display_name cfg,
          active = active,
          models = models,
          cost = \<lparr>used = cost, limit = cost_limit, percent = py_round cost_pct 1\<rparr>,
          tokens = \<lparr>used = tokens_used, limit = token_limit, percent = py_round token_pct 1\<rparr>,
          messages = \<lparr>used = msgs, limit = msg_limit, percent = py_round msg_pct 1\<rparr>,
          time_to_reset = \<lparr>remaining_minutes = remaining_minutes, reset_at = reset_at_str\<rparr>,
          burn_rate = burn_rate,
          cost_rate = py_round cost_rate 4,
          predictions = \<lparr>tokens_will_run_out = tokens_will_run_out,
                         limit_resets_at = reset_at_str\<rparr>\<rparr>
     ))))))))))))))))))))))"

subsection \<open>The endpoint\<close>

text \<open>
  What the route function \<open>status\<close> does: it returns the data (HTTP 200), raises
  \<open>HTTPException(status_code, detail)\<close>, or lets another exception through. What the
  framework then does with the returned dictionary (its validation against
  \<open>StatusResponse\<close> and its encoding) is not part of the model.
\<close>

datatype http_result =
    Returned status_report
  | HTTPException nat string
  | Uncaught exn

definition status :: "env \<Rightarrow> string \<Rightarrow> http_result" where
  "status E plan_s =
     (case get_ccusage_status E (OfStr plan_s) DEFAULT_TEST_CMD of
        Inr data \<Rightarrow> Returned data
      | Inl e \<Rightarrow>
          if is_ValueError (cls e) then HTTPException 400 (exn_str e)
          else if is_RuntimeError (cls e) then HTTPException 502 (exn_str e)
          else Uncaught e)"

section \<open>Test doubles\<close>

text \<open>
  The environments of \<open>test.py\<close>: its \<open>fake_run\<close> answers the probe command and the
  usage command with chosen outcomes; the library fields are finite tables holding what
  CPython answers on the texts these scenarios reach.
\<close>

text \<open>\<open>json.dumps(_mock_ccusage_data())\<close> and the value \<open>json.loads\<close> reads back from it.\<close>

definition MOCK_TEXT :: string where
  \<open>MOCK_TEXT = ''{"blocks": [{"isActive": true, "costUSD": 6.4, "totalTokens": 15827, "entries": 180, "endTime": "2025-08-23T14:00:00.000Z", "burnRate": {"tokensPerMinuteForIndicator": 128.9, "costPerHour": 3.366}}]}''\<close>

definition mock_block :: json where
  "mock_block =
     JObj [(''isActive'', JBool True),
           (''costUSD'', JFloat 6.4),
           (''totalTokens'', JInt 15827),
           (''entries'', JInt 180),
           (''endTime'', JStr ''2025-08-23T14:00:00.000Z''),
           (''burnRate'', JObj [(''tokensPerMinuteForIndicator'', JFloat 128.9),
                                (''costPerHour'', JFloat 3.366)])]"

definition mock_ccusage_data :: json where
  "mock_ccusage_data = JObj [(''blocks'', JArr [mock_block])]"

text \<open>A usage report whose block holds the required \<open>endTime\<close> and nothing else.\<close>

definition MINIMAL_TEXT :: string where
  \<open>MINIMAL_TEXT = ''{"blocks": [{"endTime": "2025-08-23T14:00:00.000Z"}]}''\<close>

definition minimal_block :: json where
  "minimal_block = JObj [(''endTime'', JStr ''2025-08-23T14:00:00.000Z'')]"

definition minimal_ccusage_data :: json where
  "minimal_ccusage_data = JObj [(''blocks'', JArr [minimal_block])]"


text \<open>A process that ran to completion with this return code and standard output.\<close>

definition completed :: "int \<Rightarrow> string \<Rightarrow> exn + completed_process" where
  "completed code text = Inr \<lparr>returncode = code, stdout = text, stderr = []\<rparr>"

text \<open>
  The clock reads 2025-08-23T12:00:00 UTC. The three instants the table of \<open>strftime\<close>
  knows are 2025-08-23T14:00:00, 2025-12-03T18:38:18.060512 and 2025-08-23T12:00:00.
\<close>

definition fake_env :: "(exn + completed_process) \<Rightarrow> (exn + completed_process) \<Rightarrow> env" where
  "fake_env probe usage =
     \<lparr>subprocess_run = (\<lambda>cmd. if cmd = CCUSAGE_CMD then usage else probe),
      json_loads = (\<lambda>s.
        if s = MOCK_TEXT then Inr mock_ccusage_data
        else if s = MINIMAL_TEXT then Inr minimal_ccusage_data
        else if s = ''{}'' then Inr (JObj [])
        else Inl (Exn JSONDecodeError ''Expecting value: line 1 column 1 (char 0)'')),
      float_of_str = (\<lambda>s. Inl (Exn ValueError (''could not convert string to float: '' @ s))),
      int_of_str = (\<lambda>s. Inl (Exn ValueError (''invalid literal for int() with base 10: '' @ s))),
      fromisoformat = (\<lambda>s.
        if s = ''2025-08-23T14:00:00.000+00:00''
        then Inr \<lparr>wall = 63891554400000000, utcoffset = Some 0\<rparr>
        else Inl (Exn ValueError (''Invalid isoformat string: '' @ s))),
      strftime = (\<lambda>ts f.
        if wall ts = 63891554400000000 then ''2025-08-23 14:00 UTC''
        else if wall ts = 63900383898060512 then ''2025-12-03 18:38 UTC''
        else if wall ts = 63891547200000000 then ''2025-08-23 12:00 UTC''
        else []),
      clock = 63891547200000000,
      plan_config = PLAN_CONFIG\<rparr>"

text \<open>\<open>test_status_normal\<close>: the probe prints \<open>2\<close>, the usage command the mock report.\<close>

definition normal_env :: env where
  "normal_env = fake_env (completed 0 ''2'') (completed 0 MOCK_TEXT)"

definition normal_report :: status_report where
  "normal_report =
     \<lparr>limit_probe = \<lparr>type = ''not_limited'', message = ''2''\<rparr>,
      plan = ''Pro'', active = True, models = JArr [],
      cost = \<lparr>used = 6.4, limit = 18, percent = 35.6\<rparr>,
      tokens = \<lparr>used = 15.827, limit = 19000, percent = 0.1\<rparr>,
      messages = \<lparr>used = 180, limit = 250, percent = 72\<rparr>,
      time_to_reset = \<lparr>remaining_minutes = 120, reset_at = ''2025-08-23 14:00 UTC''\<rparr>,
      burn_rate = 128.9, cost_rate = 0.0561,
      predictions = \<lparr>tokens_will_run_out = ''2025-12-03 18:38 UTC'',
                     limit_resets_at = ''2025-08-23 14:00 UTC''\<rparr>\<rparr>"





text \<open>
  \<open>str(e)\<close> of the \<open>subprocess.TimeoutExpired\<close> raised for the probe command
  \<open>("claude", "-p", 500 * "x")\<close>: 557 characters.
\<close>

definition LONG_PROMPT_CMD :: "string list" where
  "LONG_PROMPT_CMD = [''claude'', ''-p'', replicate 500 CHR ''x'']"

definition TIMEOUT_MESSAGE :: string where
  "TIMEOUT_MESSAGE = ''Command '['claude', '-p', '' @ [CHR 0x27] @ replicate 500 CHR ''x''
     @ [CHR 0x27] @ '']' timed out after 30 seconds''"

text \<open>The literal phrases named for the first limit pattern, in lower case.\<close>

definition LIMIT_PHRASES :: "string list" where
  "LIMIT_PHRASES = [''5-hour limit reached'', ''5 hour limit reached'',
     ''5-hour limit readched'', ''5 hour limit readched'', ''rate limit'']"

section \<open>Properties\<close>

subsection \<open>Sequencing of raising computations\<close>

lemma and_then_Inr [simp]: "and_then (Inr x) f = f x"
  by (simp add: and_then_def)

lemma and_then_Inl [simp]: "and_then (Inl e) f = Inl e"
  by (simp add: and_then_def)

lemma and_then_eq_Inr: "and_then m f = Inr r \<longleftrightarrow> (\<exists>x. m = Inr x \<and> f x = Inr r)"
  by (cases m) simp_all

subsection \<open>The matcher\<close>

lemma accepts_match_here: "accepts r p \<Longrightarrow> match_here r (p @ q)"
proof (induction p arbitrary: r)
  case Nil
  then show ?case by (cases q) simp_all
next
  case (Cons c p)
  then show ?case by simp
qed

lemma match_here_search: "match_here r s \<Longrightarrow> search r (a @ s)"
proof (induction a)
  case Nil
  then show ?case by (cases s) simp_all
next
  case (Cons c a)
  then show ?case by simp
qed

text \<open>A text that contains a word of the pattern is found by \<open>search\<close>.\<close>

lemma accepts_search: "accepts r p \<Longrightarrow> search r (a @ p @ q)"
  by (simp add: accepts_match_here match_here_search)

text \<open>The matcher against the words of the pattern.\<close>

lemma repeats_Cons:
  "c # w \<in> repeats A \<longleftrightarrow> (\<exists>u v. w = u @ v \<and> c # u \<in> A \<and> v \<in> repeats A)"
proof
  assume "c # w \<in> repeats A"
  then show "\<exists>u v. w = u @ v \<and> c # u \<in> A \<and> v \<in> repeats A"
  proof (induction "c # w" arbitrary: w rule: repeats.induct)
    case (more u v)
    show ?case
    proof (cases u)
      case Nil
      with more(4) have "v = c # w" by simp
      then show ?thesis by (rule more(3))
    next
      case (Cons d u')
      with more(4) have w: "w = u' @ v" and "d = c" by simp_all
      with more(1) Cons have "c # u' \<in> A" by simp
      with w more(2) show ?thesis by blast
    qed
  qed
next
  assume "\<exists>u v. w = u @ v \<and> c # u \<in> A \<and> v \<in> repeats A"
  then obtain u v where "w = u @ v" "c # u \<in> A" "v \<in> repeats A" by blast
  then have "(c # u) @ v \<in> repeats A" by (intro repeats.more)
  with \<open>w = u @ v\<close> show "c # w \<in> repeats A" by simp
qed

lemma words_CatI: "u \<in> words r \<Longrightarrow> v \<in> words s \<Longrightarrow> u @ v \<in> words (Cat r s)"
  by (simp, rule exI [of _ u], rule exI [of _ v], simp)

lemma words_CatE:
  assumes "w \<in> words (Cat r s)"
  obtains u v where "w = u @ v" "u \<in> words r" "v \<in> words s"
  using assms by auto

lemma nullable_words: "nullable r \<longleftrightarrow> [] \<in> words r"
  by (induction r) (auto intro: repeats.none)

lemma deriv_words: "w \<in> words (deriv c r) \<longleftrightarrow> c # w \<in> words r"
proof (induction r arbitrary: w)
  case Never
  show ?case by simp
next
  case Eps
  show ?case by simp
next
  case (Atom a)
  show ?case by simp
next
  case (Or r s)
  then show ?case by simp
next
  case (Cat r s)
  show ?case
  proof
    assume d: "w \<in> words (deriv c (Cat r s))"
    have "(\<exists>u v. w = u @ v \<and> u \<in> words (deriv c r) \<and> v \<in> words s)
          \<or> (nullable r \<and> w \<in> words (deriv c s))"
    proof (cases "nullable r")
      case True
      with d have "w \<in> words (Cat (deriv c r) s) \<or> w \<in> words (deriv c s)" by simp
      with True show ?thesis by (auto elim: words_CatE)
    next
      case False
      with d have "w \<in> words (Cat (deriv c r) s)" by simp
      then show ?thesis by (auto elim: words_CatE)
    qed
    then show "c # w \<in> words (Cat r s)"
    proof
      assume "\<exists>u v. w = u @ v \<and> u \<in> words (deriv c r) \<and> v \<in> words s"
      then obtain u v where uv: "w = u @ v" "u \<in> words (deriv c r)" "v \<in> words s" by blast
      from uv(2) have "c # u \<in> words r" using Cat.IH(1) by simp
      then have "(c # u) @ v \<in> words (Cat r s)" using uv(3) by (rule words_CatI)
      with uv(1) show ?thesis by simp
    next
      assume "nullable r \<and> w \<in> words (deriv c s)"
      then have "[] \<in> words r" "c # w \<in> words s"
        using Cat.IH(2) by (simp_all add: nullable_words)
      then have "[] @ (c # w) \<in> words (Cat r s)" by (rule words_CatI)
      then show ?thesis by simp
    qed
  next
    assume "c # w \<in> words (Cat r s)"
    then obtain u v where uv: "c # w = u @ v" "u \<in> words r" "v \<in> words s"
      by (rule words_CatE)
    show "w \<in> words (deriv c (Cat r s))"
    proof (cases u)
      case Nil
      with uv have "nullable r" "w \<in> words (deriv c s)"
        using Cat.IH(2) by (simp_all add: nullable_words)
      then show ?thesis by simp
    next
      case (Cons d u')
      with uv have w: "w = u' @ v" and "c # u' \<in> words r" by simp_all
      then have "u' \<in> words (deriv c r)" using Cat.IH(1) by simp
      then have "u' @ v \<in> words (Cat (deriv c r) s)" using uv(3) by (rule words_CatI)
      with w show ?thesis by simp
    qed
  qed
next
  case (Many r)
  have "w \<in> words (deriv c (Many r)) \<longleftrightarrow>
          (\<exists>u v. w = u @ v \<and> u \<in> words (deriv c r) \<and> v \<in> repeats (words r))"
    by simp
  also have "\<dots> \<longleftrightarrow> (\<exists>u v. w = u @ v \<and> c # u \<in> words r \<and> v \<in> repeats (words r))"
    using Many.IH by simp
  also have "\<dots> \<longleftrightarrow> c # w \<in> words (Many r)"
    by (simp add: repeats_Cons)
  finally show ?case .
qed

lemma accepts_words: "accepts r w \<longleftrightarrow> w \<in> words r"
  by (induction w arbitrary: r) (simp_all add: nullable_words deriv_words)

lemma match_here_words: "match_here r s \<longleftrightarrow> (\<exists>p q. s = p @ q \<and> p \<in> words r)"
proof (induction s arbitrary: r)
  case Nil
  then show ?case by (simp add: nullable_words)
next
  case (Cons c s)
  show ?case
  proof
    assume "match_here r (c # s)"
    then have "nullable r \<or> match_here (deriv c r) s" by simp
    then consider "nullable r" | p q where "s = p @ q" "p \<in> words (deriv c r)"
      using Cons.IH by blast
    then show "\<exists>p q. c # s = p @ q \<and> p \<in> words r"
    proof cases
      case 1
      then have "c # s = [] @ (c # s) \<and> [] \<in> words r" by (simp add: nullable_words)
      then show ?thesis by blast
    next
      case 2
      then have "c # s = (c # p) @ q \<and> c # p \<in> words r" by (simp add: deriv_words)
      then show ?thesis by blast
    qed
  next
    assume "\<exists>p q. c # s = p @ q \<and> p \<in> words r"
    then obtain p q where pq: "c # s = p @ q" "p \<in> words r" by blast
    show "match_here r (c # s)"
    proof (cases p)
      case Nil
      with pq have "nullable r" by (simp add: nullable_words)
      then show ?thesis by simp
    next
      case (Cons d p')
      with pq have "s = p' @ q" "p' \<in> words (deriv c r)" by (simp_all add: deriv_words)
      then have "match_here (deriv c r) s" using Cons.IH by blast
      then show ?thesis by simp
    qed
  qed
qed

lemma search_words: "search r s \<longleftrightarrow> (\<exists>a p q. s = a @ p @ q \<and> p \<in> words r)"
proof (induction s)
  case Nil
  then show ?case by (simp add: nullable_words)
next
  case (Cons c s)
  show ?case
  proof
    assume "search r (c # s)"
    then consider "match_here r (c # s)" | "search r s" by (simp only: search.simps) blast
    then show "\<exists>a p q. c # s = a @ p @ q \<and> p \<in> words r"
    proof cases
      case 1
      then obtain p q where "c # s = p @ q" "p \<in> words r"
        unfolding match_here_words by blast
      then have "c # s = [] @ p @ q \<and> p \<in> words r" by simp
      then show ?thesis by blast
    next
      case 2
      then obtain a p q where "s = a @ p @ q" "p \<in> words r" using Cons.IH by blast
      then have "c # s = (c # a) @ p @ q \<and> p \<in> words r" by simp
      then show ?thesis by blast
    qed
  next
    assume "\<exists>a p q. c # s = a @ p @ q \<and> p \<in> words r"
    then obtain a p q where apq: "c # s = a @ p @ q" "p \<in> words r" by blast
    show "search r (c # s)"
    proof (cases a)
      case Nil
      with apq have "c # s = p @ q" by simp
      with apq(2) have "match_here r (c # s)" unfolding match_here_words by blast
      then show ?thesis by simp
    next
      case (Cons d a')
      with apq have "s = a' @ p @ q" by simp
      with apq(2) have "search r s" using Cons.IH by blast
      then show ?thesis by simp
    qed
  qed
qed

text \<open>Matching ignores the case of the text.\<close>

lemma lower_fixed:
  "lower c = x \<Longrightarrow> x \<notin> set ''abcdefghijklmnopqrstuvwxyz'' \<Longrightarrow> c = x"
  by (auto simp add: lower_def split: if_splits)

lemma lower_idem: "lower (lower c) = lower c"
  by (simp add: lower_def)

lemma isspace_lower: "isspace (lower c) = isspace c"
  by (auto simp add: lower_def isspace_def whitespace_def)

lemma atom_match_lower: "atom_match a (lower c) = atom_match a c"
  by (cases a) (simp_all add: lower_idem isspace_lower)

lemma deriv_lower: "deriv (lower c) r = deriv c r"
  by (induction r) (simp_all add: atom_match_lower)

lemma accepts_lower: "accepts r (map lower p) = accepts r p"
  by (induction p arbitrary: r) (simp_all add: deriv_lower)

lemma limit_phrases_evaluated: "list_all (accepts LIMIT_HIT) LIMIT_PHRASES"
  by code_simp

lemma limit_phrases_accepted:
  assumes "map lower p \<in> set LIMIT_PHRASES"
  shows "accepts LIMIT_HIT p"
proof -
  have "accepts LIMIT_HIT (map lower p)"
    using assms limit_phrases_evaluated by (simp add: list_all_iff)
  then show ?thesis by (simp add: accepts_lower)
qed

lemma lower_newlines: "lower CHR 0x0A = CHR 0x0A" "lower CHR 0x0D = CHR 0x0D"
  by (simp_all add: lower_def)

lemma reset_then_char_accepted:
  assumes "map lower w = ''reset''" and "c \<noteq> CHR 0x0A" and "c \<noteq> CHR 0x0D"
  shows "accepts RESET_HINT (w @ [c])"
proof -
  have n: "lower c \<noteq> CHR 0x0A" "lower c \<noteq> CHR 0x0D"
    using assms(2,3) lower_fixed [of c "CHR 0x0A"] lower_fixed [of c "CHR 0x0D"] by auto
  have "accepts RESET_HINT (''reset'' @ [lower c])"
    using n by (simp add: RESET_HINT_def lits_def Optional_def OneOrMore_def seqs_def
        lower_idem lower_newlines)
  then have "accepts RESET_HINT (map lower (w @ [c]))"
    using assms(1) by simp
  then show ?thesis by (simp only: accepts_lower)
qed

subsection \<open>The test doubles\<close>

lemma run_fake_probe:
  "cmd \<noteq> CCUSAGE_CMD \<Longrightarrow>
   run (fake_env (completed code text) usage) cmd = Inr (code, strip text)"
  by (simp add: run_def fake_env_def completed_def)

lemma run_fake_probe_raises:
  "cmd \<noteq> CCUSAGE_CMD \<Longrightarrow> run (fake_env (Inl e) usage) cmd = Inl e"
  by (simp add: run_def fake_env_def)

lemma run_fake_usage:
  "run (fake_env probe (completed code text)) CCUSAGE_CMD = Inr (code, strip text)"
  by (simp add: run_def fake_env_def completed_def)

lemma test_cmds_differ:
  "DEFAULT_TEST_CMD \<noteq> CCUSAGE_CMD" "LONG_PROMPT_CMD \<noteq> CCUSAGE_CMD"
  by (simp_all add: DEFAULT_TEST_CMD_def LONG_PROMPT_CMD_def CCUSAGE_CMD_def)

lemma length_TIMEOUT_MESSAGE: "length TIMEOUT_MESSAGE = 557"
  by (simp add: TIMEOUT_MESSAGE_def)

subsection \<open>The limit probe\<close>

text \<open>
  C4, as the code has it. When running the probe command raises, the probe returns type
  \<open>"error"\<close> with the whole of \<open>str(e)\<close> as message: this branch does not cut the
  message at 500 characters.
\<close>

theorem probe_exception_message_in_full:
  assumes "run E test_cmd = Inl e"
  shows "probe_limit_via_claude E test_cmd = \<lparr>type = ''error'', message = exn_str e\<rparr>"
  using assms by (simp add: probe_limit_via_claude_def)

theorem probe_exception_message_in_full_witness:
  "run (fake_env (Inl (Exn TimeoutExpired TIMEOUT_MESSAGE)) (completed 0 MOCK_TEXT)) LONG_PROMPT_CMD
     = Inl (Exn TimeoutExpired TIMEOUT_MESSAGE)
   \<and> probe_limit_via_claude
        (fake_env (Inl (Exn TimeoutExpired TIMEOUT_MESSAGE)) (completed 0 MOCK_TEXT)) LONG_PROMPT_CMD
     = \<lparr>type = ''error'', message = TIMEOUT_MESSAGE\<rparr>"
proof -
  have r: "run (fake_env (Inl (Exn TimeoutExpired TIMEOUT_MESSAGE)) (completed 0 MOCK_TEXT))
             LONG_PROMPT_CMD = Inl (Exn TimeoutExpired TIMEOUT_MESSAGE)"
    by (simp add: run_fake_probe_raises test_cmds_differ)
  from probe_exception_message_in_full [OF r] r show ?thesis by simp
qed

text \<open>
  C4, as stated, fails: a timeout of the probe command \<open>("claude", "-p", 500 * "x")\<close>
  has a description of 557 characters, and the message is all of it, not its first 500.
\<close>

theorem probe_exception_message_counterexample:
  "length (message (probe_limit_via_claude
      (fake_env (Inl (Exn TimeoutExpired TIMEOUT_MESSAGE)) (completed 0 MOCK_TEXT))
      LONG_PROMPT_CMD)) = 557
   \<and> message (probe_limit_via_claude
      (fake_env (Inl (Exn TimeoutExpired TIMEOUT_MESSAGE)) (completed 0 MOCK_TEXT))
      LONG_PROMPT_CMD) \<noteq> take 500 TIMEOUT_MESSAGE"
proof -
  have m: "message (probe_limit_via_claude
      (fake_env (Inl (Exn TimeoutExpired TIMEOUT_MESSAGE)) (completed 0 MOCK_TEXT))
      LONG_PROMPT_CMD) = TIMEOUT_MESSAGE"
    by (simp add: probe_limit_via_claude_def run_fake_probe_raises test_cmds_differ)
  have "length (take 500 TIMEOUT_MESSAGE) \<noteq> length TIMEOUT_MESSAGE"
    by (simp add: length_TIMEOUT_MESSAGE)
  then have "TIMEOUT_MESSAGE \<noteq> take 500 TIMEOUT_MESSAGE"
    by metis
  with m show ?thesis by (simp add: length_TIMEOUT_MESSAGE)
qed

text \<open>
  C5. When the probe command returned and its output matches neither limit pattern, the
  result is type \<open>"not_limited"\<close> with the stripped output as message if the stripped
  output contains the character \<open>2\<close>, and otherwise type \<open>"error"\<close> with the first 500
  characters of the output as message.
\<close>

theorem probe_without_limit_pattern:
  assumes "run E test_cmd = Inr (code, out)"
    and "\<not> search LIMIT_HIT out"
    and "\<not> search RESET_HINT out"
  shows "probe_limit_via_claude E test_cmd =
           (if CHR ''2'' \<in> set (strip out)
            then \<lparr>type = ''not_limited'', message = strip out\<rparr>
            else \<lparr>type = ''error'', message = take 500 out\<rparr>)"
  using assms by (simp add: probe_limit_via_claude_def)

theorem probe_without_limit_pattern_witness:
  "probe_limit_via_claude (fake_env (completed 0 ''1 + 1 = 2'') (completed 0 MOCK_TEXT))
      DEFAULT_TEST_CMD = \<lparr>type = ''not_limited'', message = ''1 + 1 = 2''\<rparr>
   \<and> probe_limit_via_claude (fake_env (completed 1 ''Invalid API key'')
      (completed 0 MOCK_TEXT)) DEFAULT_TEST_CMD
      = \<lparr>type = ''error'', message = ''Invalid API key''\<rparr>"
proof -
  have s1: "strip ''1 + 1 = 2'' = ''1 + 1 = 2''"
    and s2: "strip ''Invalid API key'' = ''Invalid API key''"
    by (simp_all add: strip_def isspace_def whitespace_def)
  have r1: "run (fake_env (completed 0 ''1 + 1 = 2'') (completed 0 MOCK_TEXT)) DEFAULT_TEST_CMD
              = Inr (0, ''1 + 1 = 2'')"
    by (simp add: run_fake_probe test_cmds_differ s1)
  have r2: "run (fake_env (completed 1 ''Invalid API key'') (completed 0 MOCK_TEXT))
              DEFAULT_TEST_CMD = Inr (1, ''Invalid API key'')"
    by (simp add: run_fake_probe test_cmds_differ s2)
  have n1: "\<not> search LIMIT_HIT ''1 + 1 = 2''" "\<not> search RESET_HINT ''1 + 1 = 2''"
    by code_simp+
  have n2: "\<not> search LIMIT_HIT ''Invalid API key''"
    "\<not> search RESET_HINT ''Invalid API key''"
    by code_simp+
  from probe_without_limit_pattern [OF r1 n1] probe_without_limit_pattern [OF r2 n2]
  show ?thesis by (simp add: s1 s2)
qed

text \<open>
  C6. When the probe command returned and its output contains a word of the first limit
  pattern, in particular one of the phrases \<open>5-hour limit reached\<close>,
  \<open>5 hour limit reached\<close>, \<open>5-hour limit readched\<close>, \<open>5 hour limit readched\<close> or
  \<open>rate limit\<close> in any letter case, the result is type \<open>"limit"\<close> with the first 500
  characters of the output as message, whatever else the output holds.
\<close>

theorem probe_limit_phrase:
  assumes "run E test_cmd = Inr (code, out)"
    and "out = a @ p @ q"
    and "accepts LIMIT_HIT p \<or> map lower p \<in> set LIMIT_PHRASES"
  shows "probe_limit_via_claude E test_cmd = \<lparr>type = ''limit'', message = take 500 out\<rparr>"
proof -
  from assms(3) have "accepts LIMIT_HIT p"
    using limit_phrases_accepted by blast
  then have "search LIMIT_HIT out"
    unfolding assms(2) by (rule accepts_search)
  with assms(1) show ?thesis
    by (simp add: probe_limit_via_claude_def)
qed

theorem probe_limit_phrase_witness:
  "probe_limit_via_claude
     (fake_env (completed 0 ''The answer is 2. (Rate Limit warning: 2 requests left)'')
        (completed 0 MOCK_TEXT)) DEFAULT_TEST_CMD
   = \<lparr>type = ''limit'',
      message = ''The answer is 2. (Rate Limit warning: 2 requests left)''\<rparr>"
proof -
  have s: "strip ''The answer is 2. (Rate Limit warning: 2 requests left)''
             = ''The answer is 2. (Rate Limit warning: 2 requests left)''"
    by (simp add: strip_def isspace_def whitespace_def)
  have r: "run (fake_env (completed 0 ''The answer is 2. (Rate Limit warning: 2 requests left)'')
             (completed 0 MOCK_TEXT)) DEFAULT_TEST_CMD
           = Inr (0, ''The answer is 2. (Rate Limit warning: 2 requests left)'')"
    by (simp add: run_fake_probe test_cmds_differ s)
  have d: "''The answer is 2. (Rate Limit warning: 2 requests left)''
             = ''The answer is 2. ('' @ ''Rate Limit'' @ '' warning: 2 requests left)''"
    by simp
  have p: "accepts LIMIT_HIT ''Rate Limit'' \<or> map lower ''Rate Limit'' \<in> set LIMIT_PHRASES"
    by (simp add: lower_def LIMIT_PHRASES_def)
  from probe_limit_phrase [OF r d p] show ?thesis by simp
qed

text \<open>
  C9. When the probe command returned and its output contains \<open>reset\<close>, in any letter
  case, followed by one more character that is neither a line feed nor a carriage return,
  the result is type \<open>"limit"\<close> with the first 500 characters of the output as message:
  no \<open>at\<close>, \<open>on\<close> or \<open>in\<close> need follow the word.
\<close>

theorem probe_reset_word:
  assumes "run E test_cmd = Inr (code, out)"
    and "out = a @ w @ c # q"
    and "map lower w = ''reset''"
    and "c \<noteq> CHR 0x0A" and "c \<noteq> CHR 0x0D"
  shows "probe_limit_via_claude E test_cmd = \<lparr>type = ''limit'', message = take 500 out\<rparr>"
proof -
  have "accepts RESET_HINT (w @ [c])"
    using assms(3-5) by (rule reset_then_char_accepted)
  then have "search RESET_HINT (a @ (w @ [c]) @ q)"
    by (rule accepts_search)
  then have "search RESET_HINT out"
    by (simp add: assms(2))
  with assms(1) show ?thesis
    by (simp add: probe_limit_via_claude_def)
qed

theorem probe_reset_word_witness:
  "probe_limit_via_claude
     (fake_env (completed 0 ''I have Reset my notes; 1+1 is 2'') (completed 0 MOCK_TEXT))
     DEFAULT_TEST_CMD
   = \<lparr>type = ''limit'', message = ''I have Reset my notes; 1+1 is 2''\<rparr>"
proof -
  have s: "strip ''I have Reset my notes; 1+1 is 2'' = ''I have Reset my notes; 1+1 is 2''"
    by (simp add: strip_def isspace_def whitespace_def)
  have r: "run (fake_env (completed 0 ''I have Reset my notes; 1+1 is 2'') (completed 0 MOCK_TEXT))
             DEFAULT_TEST_CMD = Inr (0, ''I have Reset my notes; 1+1 is 2'')"
    by (simp add: run_fake_probe test_cmds_differ s)
  have d: "''I have Reset my notes; 1+1 is 2'' = ''I have '' @ ''Reset'' @ CHR '' '' # ''my notes; 1+1 is 2''"
    by simp
  have l: "map lower ''Reset'' = ''reset''"
    by (simp add: lower_def)
  from probe_reset_word [OF r d l] show ?thesis by simp
qed

subsection \<open>A successful run of \<open>get_ccusage_status\<close>\<close>

lemma and_then_InrE:
  assumes "and_then m f = Inr r"
  obtains x where "m = Inr x" and "f x = Inr r"
  using assms by (cases m) (simp_all add: and_then_def)

lemma get_ccusage_status_succeeds:
  assumes "get_ccusage_status E plan_a test_cmd = Inr r"
  obtains cfg raw data blocks block v_active v_cost cost_v v_tokens tokens_used_raw v_msgs msgs
    models_v end_time reset delta burn v_rate rate v_cph cost_rate_v two
  where "normalize_plan E plan_a = Inr cfg"
    and "run E CCUSAGE_CMD = Inr (0, raw)"
    and "json_loads E raw = Inr data"
    and "getitem_str data ''blocks'' = Inr blocks"
    and "getitem_0 blocks = Inr block"
    and "py_get block ''isActive'' (JBool False) = Inr v_active"
    and "py_get block ''costUSD'' (JFloat 0) = Inr v_cost"
    and "py_float E v_cost = Inr cost_v"
    and "py_get block ''totalTokens'' (JInt 0) = Inr v_tokens"
    and "py_int E v_tokens = Inr tokens_used_raw"
    and "py_get block ''entries'' (JInt 0) = Inr v_msgs"
    and "py_int E v_msgs = Inr msgs"
    and "py_get block ''models'' (JArr []) = Inr models_v"
    and "getitem_str block ''endTime'' = Inr end_time"
    and "utc_from_iso8601 E end_time = Inr reset"
    and "dt_sub reset (now E) = Inr delta"
    and "py_get block ''burnRate'' (JObj []) = Inr burn"
    and "py_get burn ''tokensPerMinuteForIndicator'' (JFloat 0) = Inr v_rate"
    and "py_float E v_rate = Inr rate"
    and "py_get burn ''costPerHour'' JNull = Inr v_cph"
    and "(if py_bool v_cph
          then and_then (py_get burn ''costPerHour'' (JFloat 0)) (\<lambda>v.
               and_then (py_float E v) (\<lambda>x. Inr (x / 60)))
          else Inr 0) = Inr cost_rate_v"
    and "(if 0 < rate
          then and_then (timedelta_minutes
                 ((if token_limit cfg \<noteq> 0
                   then max 0 (of_int (token_limit cfg * 1000 - tokens_used_raw)) else 0)
                  / rate)) (\<lambda>td.
               and_then (dt_add (now E) td) (\<lambda>predict_time. Inr (fmt_utc E predict_time)))
          else Inr ''N/A'') = Inr two"
    and "limit_probe r = probe_limit_via_claude E test_cmd"
    and "plan r = display_name cfg"
    and "cost r = \<lparr>used = cost_v, limit = cost_limit cfg,
           percent = py_round (if cost_limit cfg \<noteq> 0
                               then cost_v / cost_limit cfg * 100 else 0) 1\<rparr>"
    and "tokens r = \<lparr>used = of_int tokens_used_raw / 1000, limit = token_limit cfg,
           percent = py_round (if token_limit cfg \<noteq> 0
             then of_int tokens_used_raw / 1000 / of_int (token_limit cfg) * 100
             else 0) 1\<rparr>"
    and "messages r = \<lparr>used = msgs, limit = message_limit cfg,
           percent = py_round (if message_limit cfg \<noteq> 0
             then of_int msgs / of_int (message_limit cfg) * 100 else 0) 1\<rparr>"
    and "time_to_reset r = \<lparr>remaining_minutes = max 0 \<lfloor>total_seconds delta / 60\<rfloor>,
           reset_at = fmt_utc E reset\<rparr>"
    and "burn_rate r = rate"
    and "predictions r = \<lparr>tokens_will_run_out = two,
           limit_resets_at = fmt_utc E reset\<rparr>"
    and "r = \<lparr>limit_probe = probe_limit_via_claude E test_cmd,
          plan = display_name cfg,
          active = py_bool v_active,
          models = models_v,
          cost = cost r, tokens = tokens r, messages = messages r,
          time_to_reset = time_to_reset r,
          burn_rate = rate,
          cost_rate = py_round cost_rate_v 4,
          predictions = predictions r\<rparr>"
proof -
  from assms show thesis
    unfolding get_ccusage_status_def Let_def
    apply -
    apply (erule and_then_InrE)+
    apply (clarsimp split: if_splits)
    apply (erule and_then_InrE)+
    apply (rule that)
    apply assumption+
    apply auto
    done
qed

subsection \<open>The scenarios of \<open>test.py\<close>, evaluated\<close>

lemma strip_usage_texts: "strip MOCK_TEXT = MOCK_TEXT" "strip MINIMAL_TEXT = MINIMAL_TEXT"
  by (simp_all add: MOCK_TEXT_def MINIMAL_TEXT_def strip_def isspace_def whitespace_def)

lemma usage_texts_differ: "MINIMAL_TEXT \<noteq> MOCK_TEXT"
  by (simp add: MOCK_TEXT_def MINIMAL_TEXT_def)

lemma fake_env_fields:
  "json_loads (fake_env probe usage) MOCK_TEXT = Inr mock_ccusage_data"
  "json_loads (fake_env probe usage) MINIMAL_TEXT = Inr minimal_ccusage_data"
  "fromisoformat (fake_env probe usage) ''2025-08-23T14:00:00.000+00:00''
     = Inr \<lparr>wall = 63891554400000000, utcoffset = Some 0\<rparr>"
  "clock (fake_env probe usage) = 63891547200000000"
  "plan_config (fake_env probe usage) = PLAN_CONFIG"
  "strftime (fake_env probe usage) \<lparr>wall = 63891554400000000, utcoffset = Some 0\<rparr> f
     = ''2025-08-23 14:00 UTC''"
  "strftime (fake_env probe usage) \<lparr>wall = 63900383898060512, utcoffset = Some 0\<rparr> f
     = ''2025-12-03 18:38 UTC''"
  "strftime (fake_env probe usage) \<lparr>wall = 63891547200000000, utcoffset = Some 0\<rparr> f
     = ''2025-08-23 12:00 UTC''"
  by (simp_all add: fake_env_def usage_texts_differ)

lemma probe_says_2:
  "probe_limit_via_claude (fake_env (completed 0 ''2'') usage) DEFAULT_TEST_CMD
     = \<lparr>type = ''not_limited'', message = ''2''\<rparr>"
proof -
  have s: "strip ''2'' = ''2''"
    by (simp add: strip_def isspace_def whitespace_def)
  have n: "\<not> search LIMIT_HIT ''2''" "\<not> search RESET_HINT ''2''"
    by code_simp+
  from n show ?thesis
    by (simp add: probe_limit_via_claude_def run_fake_probe test_cmds_differ s
        del: search.simps)
qed

lemma block_fields:
  "getitem_str mock_ccusage_data ''blocks'' = Inr (JArr [mock_block])"
  "getitem_0 (JArr [mock_block]) = Inr mock_block"
  "py_get mock_block ''totalTokens'' (JInt 0) = Inr (JInt 15827)"
  "getitem_str mock_block ''endTime'' = Inr (JStr ''2025-08-23T14:00:00.000Z'')"
  "py_get mock_block ''burnRate'' (JObj [])
     = Inr (JObj [(''tokensPerMinuteForIndicator'', JFloat 128.9), (''costPerHour'', JFloat 3.366)])"
  "py_get (JObj [(''tokensPerMinuteForIndicator'', JFloat 128.9), (''costPerHour'', JFloat 3.366)])
     ''tokensPerMinuteForIndicator'' (JFloat 0) = Inr (JFloat 128.9)"
  by (simp_all add: mock_ccusage_data_def mock_block_def)


lemma end_time_parsed:
  "utc_from_iso8601 (fake_env probe usage) (JStr ''2025-08-23T14:00:00.000Z'')
     = Inr \<lparr>wall = 63891554400000000, utcoffset = Some 0\<rparr>"
  by (simp add: replace_Z_def fake_env_fields)

lemma normalize_Pro:
  "normalize_plan (fake_env probe usage) (OfStr ''Pro'')
     = Inr \<lparr>token_limit = 19000, cost_limit = 18, message_limit = 250, display_name = ''Pro''\<rparr>"
  by (simp add: normalize_plan_def fake_env_fields PLAN_CONFIG_def)

lemma status_normal:
  "get_ccusage_status normal_env (OfStr ''Pro'') DEFAULT_TEST_CMD = Inr normal_report"
  by (simp add: get_ccusage_status_def normal_env_def normal_report_def normalize_Pro
      probe_says_2 run_fake_usage strip_usage_texts fake_env_fields block_fields replace_Z_def
      mock_block_def now_def dt_sub_def total_seconds_def fmt_utc_def timedelta_minutes_def
      dt_add_def MAX_WALL_def py_round_def round_half_even_def Let_def)







lemma normal_env_fields:
  "normalize_plan normal_env (OfStr ''Pro'')
     = Inr \<lparr>token_limit = 19000, cost_limit = 18, message_limit = 250, display_name = ''Pro''\<rparr>"
  "run normal_env CCUSAGE_CMD = Inr (0, MOCK_TEXT)"
  "json_loads normal_env MOCK_TEXT = Inr mock_ccusage_data"
  "clock normal_env = 63891547200000000"
  "utc_from_iso8601 normal_env (JStr ''2025-08-23T14:00:00.000Z'')
     = Inr \<lparr>wall = 63891554400000000, utcoffset = Some 0\<rparr>"
  "fmt_utc normal_env \<lparr>wall = 63891554400000000, utcoffset = Some 0\<rparr> = ''2025-08-23 14:00 UTC''"
  by (simp_all add: normal_env_def normalize_Pro run_fake_usage strip_usage_texts
      fake_env_fields replace_Z_def fmt_utc_def)


subsection \<open>The report\<close>

text \<open>
  C10. Whenever \<open>get_ccusage_status\<close> returns a report, its
  \<open>predictions.limit_resets_at\<close> and its \<open>time_to_reset.reset_at\<close> are the same string:
  both are \<open>_fmt_utc\<close> of the datetime parsed from the \<open>endTime\<close> of the first block.
\<close>

theorem reset_strings_agree:
  assumes "get_ccusage_status E plan_a test_cmd = Inr r"
    and "run E CCUSAGE_CMD = Inr (code, raw)"
    and "json_loads E raw = Inr data"
    and "getitem_str data ''blocks'' = Inr blocks"
    and "getitem_0 blocks = Inr block"
    and "getitem_str block ''endTime'' = Inr end_time"
    and "utc_from_iso8601 E end_time = Inr reset"
  shows "limit_resets_at (predictions r) = reset_at (time_to_reset r)
       \<and> reset_at (time_to_reset r) = fmt_utc E reset"
  using assms(1)
proof (rule get_ccusage_status_succeeds)
  fix raw' data' blocks' block' end_time' reset' delta two
  assume "run E CCUSAGE_CMD = Inr (0, raw')" "json_loads E raw' = Inr data'"
    "getitem_str data' ''blocks'' = Inr blocks'" "getitem_0 blocks' = Inr block'"
    "getitem_str block' ''endTime'' = Inr end_time'"
    "utc_from_iso8601 E end_time' = Inr reset'"
  with assms(2-7) have "reset' = reset" by simp
  moreover assume
    "time_to_reset r = \<lparr>remaining_minutes = max 0 \<lfloor>total_seconds delta / 60\<rfloor>,
       reset_at = fmt_utc E reset'\<rparr>"
    "predictions r = \<lparr>tokens_will_run_out = two, limit_resets_at = fmt_utc E reset'\<rparr>"
  ultimately show ?thesis by simp
qed

theorem reset_strings_agree_witness:
  "limit_resets_at (predictions normal_report) = reset_at (time_to_reset normal_report)
   \<and> reset_at (time_to_reset normal_report)
       = fmt_utc normal_env \<lparr>wall = 63891554400000000, utcoffset = Some 0\<rparr>"
  by (rule reset_strings_agree [OF status_normal normal_env_fields(2,3) block_fields(1,2,4)
        normal_env_fields(5)])







subsection \<open>The probe and the request\<close>

lemma and_then_assoc: "and_then (and_then m f) g = and_then m (\<lambda>x. and_then (f x) g)"
  by (cases m) simp_all

lemma and_then_if:
  "and_then (if c then a else b) g = (if c then and_then a g else and_then b g)"
  by simp

lemma and_then_case_prod:
  "and_then (case p of (x, y) \<Rightarrow> f x y) g = (case p of (x, y) \<Rightarrow> and_then (f x y) g)"
  by (cases p) simp

lemma other_processes:
  "normalize_plan (E\<lparr>subprocess_run := sp\<rparr>) = normalize_plan E"
  "py_float (E\<lparr>subprocess_run := sp\<rparr>) = py_float E"
  "py_int (E\<lparr>subprocess_run := sp\<rparr>) = py_int E"
  "utc_from_iso8601 (E\<lparr>subprocess_run := sp\<rparr>) = utc_from_iso8601 E"
  "fmt_utc (E\<lparr>subprocess_run := sp\<rparr>) = fmt_utc E"
  "now (E\<lparr>subprocess_run := sp\<rparr>) = now E"
proof -
  show "normalize_plan (E\<lparr>subprocess_run := sp\<rparr>) = normalize_plan E"
    by (rule ext) (simp add: normalize_plan_def)
  show "py_float (E\<lparr>subprocess_run := sp\<rparr>) = py_float E"
  proof
    fix v show "py_float (E\<lparr>subprocess_run := sp\<rparr>) v = py_float E v"
      by (cases v) simp_all
  qed
  show "py_int (E\<lparr>subprocess_run := sp\<rparr>) = py_int E"
  proof
    fix v show "py_int (E\<lparr>subprocess_run := sp\<rparr>) v = py_int E v"
      by (cases v) simp_all
  qed
  show "utc_from_iso8601 (E\<lparr>subprocess_run := sp\<rparr>) = utc_from_iso8601 E"
  proof
    fix v show "utc_from_iso8601 (E\<lparr>subprocess_run := sp\<rparr>) v = utc_from_iso8601 E v"
      by (cases v) simp_all
  qed
  show "fmt_utc (E\<lparr>subprocess_run := sp\<rparr>) = fmt_utc E"
    by (rule ext) (simp add: fmt_utc_def)
  show "now (E\<lparr>subprocess_run := sp\<rparr>) = now E"
    by (simp add: now_def)
qed

text \<open>
  The processes reach the result of \<open>get_ccusage_status\<close> through two doors only: the
  outcome of the usage command, and the \<open>limit\<close> entry, which is the probe's result.
\<close>

lemma get_ccusage_status_other_processes:
  assumes "sp CCUSAGE_CMD = subprocess_run E CCUSAGE_CMD"
  shows "get_ccusage_status (E\<lparr>subprocess_run := sp\<rparr>) plan_a test_cmd' =
           and_then (get_ccusage_status E plan_a test_cmd) (\<lambda>r.
             Inr (r\<lparr>limit_probe :=
               probe_limit_via_claude (E\<lparr>subprocess_run := sp\<rparr>) test_cmd'\<rparr>))"
proof -
  have r: "run (E\<lparr>subprocess_run := sp\<rparr>) CCUSAGE_CMD = run E CCUSAGE_CMD"
    using assms by (simp add: run_def)
  show ?thesis
    unfolding get_ccusage_status_def other_processes r Let_def
    by (simp add: and_then_assoc and_then_if and_then_case_prod cong: if_cong)
qed

text \<open>
  C8. Let a request succeed in some environment. Then it succeeds in every environment
  that differs only in what the processes other than the usage command do, whatever the
  probe command does there: \<open>get_ccusage_status\<close> returns the same report but for its
  \<open>limit\<close> entry, which is the probe's result, and the endpoint returns it (HTTP 200). When
  running the probe command raises, and when its output matches no limit pattern and
  holds no \<open>2\<close>, the \<open>limit\<close> entry has type \<open>"error"\<close>.
\<close>

theorem probe_outcome_never_aborts:
  assumes "get_ccusage_status E plan_a test_cmd = Inr r"
    and "sp CCUSAGE_CMD = subprocess_run E CCUSAGE_CMD"
  shows "get_ccusage_status (E\<lparr>subprocess_run := sp\<rparr>) plan_a test_cmd' =
           Inr (r\<lparr>limit_probe :=
             probe_limit_via_claude (E\<lparr>subprocess_run := sp\<rparr>) test_cmd'\<rparr>)
       \<and> (\<forall>plan_s. plan_a = OfStr plan_s \<longrightarrow>
             status (E\<lparr>subprocess_run := sp\<rparr>) plan_s =
               Returned (r\<lparr>limit_probe :=
                 probe_limit_via_claude (E\<lparr>subprocess_run := sp\<rparr>) DEFAULT_TEST_CMD\<rparr>))
       \<and> (\<forall>e. run (E\<lparr>subprocess_run := sp\<rparr>) test_cmd' = Inl e \<longrightarrow>
             type (probe_limit_via_claude (E\<lparr>subprocess_run := sp\<rparr>) test_cmd') = ''error'')
       \<and> (\<forall>code out. run (E\<lparr>subprocess_run := sp\<rparr>) test_cmd' = Inr (code, out)
             \<and> \<not> search LIMIT_HIT out \<and> \<not> search RESET_HINT out
             \<and> CHR ''2'' \<notin> set (strip out) \<longrightarrow>
             type (probe_limit_via_claude (E\<lparr>subprocess_run := sp\<rparr>) test_cmd') = ''error'')"
proof -
  have g: "get_ccusage_status (E\<lparr>subprocess_run := sp\<rparr>) plan_a c =
           Inr (r\<lparr>limit_probe := probe_limit_via_claude (E\<lparr>subprocess_run := sp\<rparr>) c\<rparr>)" for c
    using get_ccusage_status_other_processes
      [where sp = sp and E = E and plan_a = plan_a and test_cmd' = c and test_cmd = test_cmd]
      assms
    by simp
  have s: "status (E\<lparr>subprocess_run := sp\<rparr>) plan_s =
             Returned (r\<lparr>limit_probe :=
               probe_limit_via_claude (E\<lparr>subprocess_run := sp\<rparr>) DEFAULT_TEST_CMD\<rparr>)"
    if "plan_a = OfStr plan_s" for plan_s
    using g [of DEFAULT_TEST_CMD] that by (simp add: status_def)
  have e1: "type (probe_limit_via_claude (E\<lparr>subprocess_run := sp\<rparr>) test_cmd') = ''error''"
    if "run (E\<lparr>subprocess_run := sp\<rparr>) test_cmd' = Inl e" for e
    using that by (simp add: probe_limit_via_claude_def)
  have e2: "type (probe_limit_via_claude (E\<lparr>subprocess_run := sp\<rparr>) test_cmd') = ''error''"
    if "run (E\<lparr>subprocess_run := sp\<rparr>) test_cmd' = Inr (code, out)"
      "\<not> search LIMIT_HIT out" "\<not> search RESET_HINT out" "CHR ''2'' \<notin> set (strip out)"
    for code out
    using that by (simp add: probe_limit_via_claude_def)
  from g s e1 e2 show ?thesis by blast
qed

theorem probe_outcome_never_aborts_witness:
  "status (normal_env\<lparr>subprocess_run := subprocess_run
      (fake_env (Inl (Exn TimeoutExpired TIMEOUT_MESSAGE)) (completed 0 MOCK_TEXT))\<rparr>) ''Pro''
     = Returned (normal_report\<lparr>limit_probe := \<lparr>type = ''error'', message = TIMEOUT_MESSAGE\<rparr>\<rparr>)
   \<and> status (normal_env\<lparr>subprocess_run := subprocess_run
      (fake_env (completed 1 ''Invalid API key'') (completed 0 MOCK_TEXT))\<rparr>) ''Pro''
     = Returned (normal_report\<lparr>limit_probe := \<lparr>type = ''error'', message = ''Invalid API key''\<rparr>\<rparr>)"
proof -
  let ?sp1 = "subprocess_run
      (fake_env (Inl (Exn TimeoutExpired TIMEOUT_MESSAGE)) (completed 0 MOCK_TEXT))"
  let ?sp2 = "subprocess_run (fake_env (completed 1 ''Invalid API key'') (completed 0 MOCK_TEXT))"
  have h1: "?sp1 CCUSAGE_CMD = subprocess_run normal_env CCUSAGE_CMD"
    and h2: "?sp2 CCUSAGE_CMD = subprocess_run normal_env CCUSAGE_CMD"
    by (simp_all add: normal_env_def fake_env_def)
  have n: "\<not> search LIMIT_HIT ''Invalid API key''" "\<not> search RESET_HINT ''Invalid API key''"
    by code_simp+
  have s: "strip ''Invalid API key'' = ''Invalid API key''"
    by (simp add: strip_def isspace_def whitespace_def)
  have p1: "probe_limit_via_claude (normal_env\<lparr>subprocess_run := ?sp1\<rparr>) DEFAULT_TEST_CMD
              = \<lparr>type = ''error'', message = TIMEOUT_MESSAGE\<rparr>"
    by (simp add: probe_limit_via_claude_def run_def fake_env_def test_cmds_differ)
  have "run (normal_env\<lparr>subprocess_run := ?sp2\<rparr>) DEFAULT_TEST_CMD = Inr (1, ''Invalid API key'')"
    by (simp add: run_def fake_env_def completed_def test_cmds_differ s)
  with n have p2: "probe_limit_via_claude (normal_env\<lparr>subprocess_run := ?sp2\<rparr>) DEFAULT_TEST_CMD
              = \<lparr>type = ''error'', message = ''Invalid API key''\<rparr>"
    by (simp add: probe_limit_via_claude_def s del: search.simps)
  from probe_outcome_never_aborts
      [where E = normal_env and sp = ?sp1 and test_cmd' = DEFAULT_TEST_CMD, OF status_normal h1]
    probe_outcome_never_aborts
      [where E = normal_env and sp = ?sp2 and test_cmd' = DEFAULT_TEST_CMD, OF status_normal h2]
  show ?thesis by (simp add: p1 p2)
qed

subsection \<open>A malformed usage report\<close>

text \<open>
  What the endpoint answers when the usage command exits with code 0 and prints a text
  that \<open>json.loads\<close> rejects, or a JSON object with no \<open>blocks\<close> or with an empty list
  of them. None of the three is HTTP 502.
\<close>

lemma status_of_raise:
  assumes "get_ccusage_status E (OfStr plan_s) DEFAULT_TEST_CMD = Inl e"
  shows "status E plan_s =
           (if is_ValueError (cls e) then HTTPException 400 (exn_str e)
            else if is_RuntimeError (cls e) then HTTPException 502 (exn_str e)
            else Uncaught e)"
  using assms by (simp add: status_def)

lemma invalid_json_raises:
  assumes "normalize_plan E plan_a = Inr cfg"
    and "run E CCUSAGE_CMD = Inr (0, raw)"
    and "json_loads E raw = Inl e"
  shows "get_ccusage_status E plan_a test_cmd = Inl e"
  using assms by (simp add: get_ccusage_status_def)

lemma invalid_json_is_400:
  assumes "normalize_plan E (OfStr plan_s) = Inr cfg"
    and "run E CCUSAGE_CMD = Inr (0, raw)"
    and "json_loads E raw = Inl (Exn JSONDecodeError msg)"
  shows "status E plan_s = HTTPException 400 msg"
  using status_of_raise [OF invalid_json_raises [OF assms]] by simp

lemma missing_blocks_is_uncaught:
  assumes "normalize_plan E (OfStr plan_s) = Inr cfg"
    and "run E CCUSAGE_CMD = Inr (0, raw)"
    and "json_loads E raw = Inr (JObj kvs)"
    and "map_of kvs ''blocks'' = None"
  shows "status E plan_s = Uncaught (Exn KeyError (CHR 0x27 # ''blocks'' @ [CHR 0x27]))"
  using assms by (simp add: status_def get_ccusage_status_def)

lemma empty_blocks_is_uncaught:
  assumes "normalize_plan E (OfStr plan_s) = Inr cfg"
    and "run E CCUSAGE_CMD = Inr (0, raw)"
    and "json_loads E raw = Inr (JObj kvs)"
    and "map_of kvs ''blocks'' = Some (JArr [])"
  shows "status E plan_s = Uncaught (Exn IndexError ''list index out of range'')"
  using assms by (simp add: status_def get_ccusage_status_def)

text \<open>
  C1, on the code. With the probe printing \<open>2\<close> and plan \<open>Pro\<close>: the usage output
  \<open>ccusage: no data\<close> (exit code 0) is not JSON, and the endpoint answers HTTP 400 with
  the decoder's message; the usage output \<open>{}\<close> has no \<open>blocks\<close>, and a \<open>KeyError\<close>
  leaves the route function uncaught. A usage command that exits with code 1 does get
  HTTP 502 (\<open>test_ccusage_failure\<close>).
\<close>

theorem malformed_usage_output_is_not_502:
  "status (fake_env (completed 0 ''2'') (completed 0 ''ccusage: no data'')) ''Pro''
     = HTTPException 400 ''Expecting value: line 1 column 1 (char 0)''
   \<and> status (fake_env (completed 0 ''2'') (completed 0 ''{}'')) ''Pro''
     = Uncaught (Exn KeyError (CHR 0x27 # ''blocks'' @ [CHR 0x27]))
   \<and> status (fake_env (completed 0 ''2'') (completed 1 ''ccusage error'')) ''Pro''
     = HTTPException 502 ''ccusage failed: ccusage error''"
proof -
  have s: "strip ''ccusage: no data'' = ''ccusage: no data''" "strip ''{}'' = ''{}''"
    "strip ''ccusage error'' = ''ccusage error''"
    by (simp_all add: strip_def isspace_def whitespace_def)
  have j: "json_loads (fake_env p u) ''ccusage: no data''
             = Inl (Exn JSONDecodeError ''Expecting value: line 1 column 1 (char 0)'')"
    "json_loads (fake_env p u) ''{}'' = Inr (JObj [])" for p u
    by (simp_all add: fake_env_def MOCK_TEXT_def MINIMAL_TEXT_def)
  have a: "status (fake_env (completed 0 ''2'') (completed 0 ''ccusage: no data'')) ''Pro''
             = HTTPException 400 ''Expecting value: line 1 column 1 (char 0)''"
    using invalid_json_is_400 [OF normalize_Pro, where raw = "''ccusage: no data''"
        and msg = "''Expecting value: line 1 column 1 (char 0)''"]
    by (simp add: run_fake_usage s j)
  have b: "status (fake_env (completed 0 ''2'') (completed 0 ''{}'')) ''Pro''
             = Uncaught (Exn KeyError (CHR 0x27 # ''blocks'' @ [CHR 0x27]))"
    using missing_blocks_is_uncaught [OF normalize_Pro, where raw = "''{}''" and kvs = "[]"]
    by (simp add: run_fake_usage s j)
  have c: "status (fake_env (completed 0 ''2'') (completed 1 ''ccusage error'')) ''Pro''
             = HTTPException 502 ''ccusage failed: ccusage error''"
    by (simp add: status_def get_ccusage_status_def normalize_Pro run_fake_usage s)
  from a b c show ?thesis by simp
qed

end
